theory Spec2Isabelle
  imports Main "HOL-Library.Sublist"
begin

section \<open>Go library functions used by the monitor\<close>

text \<open>
  Go strings are byte sequences; they are modelled as \<open>string\<close> (a list of 8-bit
  characters). The functions of package \<open>strings\<close> are modelled for a non-empty
  pattern, which is the only way \<open>main.go\<close> calls them (the patterns are literals).
\<close>

definition HasPrefix :: "string \<Rightarrow> string \<Rightarrow> bool" where
  "HasPrefix s p = (length p \<le> length s \<and> take (length p) s = p)"

definition HasSuffix :: "string \<Rightarrow> string \<Rightarrow> bool" where
  "HasSuffix s suf = (length suf \<le> length s \<and> drop (length s - length suf) s = suf)"

text \<open>\<open>TrimSuffix\<close> of \<open>main.go\<close> (lines 108-113).\<close>

definition TrimSuffix :: "string \<Rightarrow> string \<Rightarrow> string" where
  "TrimSuffix s suf = (if HasSuffix s suf then take (length s - length suf) s else s)"

text \<open>
  \<open>strings.ReplaceAll s old new\<close>: the non-overlapping occurrences of \<open>old\<close>, found
  from the left, are replaced by \<open>new\<close>. An empty \<open>old\<close>, which the program never
  passes, is outside the model (nothing is replaced then).
\<close>

function ReplaceAll :: "string \<Rightarrow> string \<Rightarrow> string \<Rightarrow> string" where
  "ReplaceAll [] old new = []"
| "ReplaceAll (c # cs) old new =
     (if old \<noteq> [] \<and> HasPrefix (c # cs) old
      then new @ ReplaceAll (drop (length old) (c # cs)) old new
      else c # ReplaceAll cs old new)"
  by pat_completeness auto
termination
  by (relation "measure (\<lambda>(s, old, new). length s)") (auto simp: HasPrefix_def)

text \<open>
  \<open>strings.Split s sep\<close> for a non-empty \<open>sep\<close>: the pieces between the non-overlapping
  occurrences of \<open>sep\<close>, found from the left; always at least one piece.
\<close>

function Split :: "string \<Rightarrow> string \<Rightarrow> string list" where
  "Split [] sep = [[]]"
| "Split (c # cs) sep =
     (if sep \<noteq> [] \<and> HasPrefix (c # cs) sep
      then [] # Split (drop (length sep) (c # cs)) sep
      else (case Split cs sep of
              [] \<Rightarrow> [[c]]
            | p # ps \<Rightarrow> (c # p) # ps))"
  by pat_completeness auto
termination
  by (relation "measure (\<lambda>(s, sep). length s)") (auto simp: HasPrefix_def)

text \<open>
  \<open>strings.TrimSpace\<close> removes the leading and trailing white space, as
  \<open>unicode.IsSpace\<close> defines it, from a string read as UTF-8: the six ASCII characters
  tab, line feed, vertical tab, form feed, carriage return and space, and the code points
  U+0085, U+00A0, U+1680, U+2000 to U+200A, U+2028, U+2029, U+202F, U+205F and U+3000.
  \<open>space_width s\<close> is the number of bytes of the white-space code point \<open>s\<close> starts
  with (0 when it starts with none); \<open>space_width_rev\<close> is the same for the end of a
  string, given reversed.
\<close>

definition asciiSpace :: "char \<Rightarrow> bool" where
  "asciiSpace c = (c = CHR 0x09 \<or> c = CHR 0x0A \<or> c = CHR 0x0B \<or> c = CHR 0x0C
                   \<or> c = CHR 0x0D \<or> c = CHR 0x20)"

definition space3 :: "char \<Rightarrow> char \<Rightarrow> char \<Rightarrow> bool" where
  "space3 a b c =
     ((a = CHR 0xE1 \<and> b = CHR 0x9A \<and> c = CHR 0x80)
      \<or> (a = CHR 0xE2 \<and> b = CHR 0x80 \<and> (0x80::nat) \<le> of_char c \<and> (of_char c :: nat) \<le> 0x8A)
      \<or> (a = CHR 0xE2 \<and> b = CHR 0x80 \<and> (c = CHR 0xA8 \<or> c = CHR 0xA9 \<or> c = CHR 0xAF))
      \<or> (a = CHR 0xE2 \<and> b = CHR 0x81 \<and> c = CHR 0x9F)
      \<or> (a = CHR 0xE3 \<and> b = CHR 0x80 \<and> c = CHR 0x80))"

definition space2 :: "char \<Rightarrow> char \<Rightarrow> bool" where
  "space2 a b = (a = CHR 0xC2 \<and> (b = CHR 0x85 \<or> b = CHR 0xA0))"

fun space_width :: "string \<Rightarrow> nat" where
  "space_width [] = 0"
| "space_width [a] = (if asciiSpace a then 1 else 0)"
| "space_width [a, b] = (if asciiSpace a then 1 else if space2 a b then 2 else 0)"
| "space_width (a # b # c # s) =
     (if asciiSpace a then 1 else if space2 a b then 2 else if space3 a b c then 3 else 0)"

fun space_width_rev :: "string \<Rightarrow> nat" where
  "space_width_rev [] = 0"
| "space_width_rev [a] = (if asciiSpace a then 1 else 0)"
| "space_width_rev [b, a] = (if asciiSpace b then 1 else if space2 a b then 2 else 0)"
| "space_width_rev (c # b # a # s) =
     (if asciiSpace c then 1 else if space2 b c then 2 else if space3 a b c then 3 else 0)"

function TrimLeftSpace :: "string \<Rightarrow> string" where
  "TrimLeftSpace s = (if space_width s = 0 then s else TrimLeftSpace (drop (space_width s) s))"
  by pat_completeness auto
termination
proof (relation "measure length")
  show "wf (measure length)" by simp
next
  fix s :: string
  assume "space_width s \<noteq> 0"
  then have "s \<noteq> []" by auto
  with \<open>space_width s \<noteq> 0\<close> show "(drop (space_width s) s, s) \<in> measure length" by simp
qed

function TrimRightSpaceRev :: "string \<Rightarrow> string" where
  "TrimRightSpaceRev r =
     (if space_width_rev r = 0 then r else TrimRightSpaceRev (drop (space_width_rev r) r))"
  by pat_completeness auto
termination
proof (relation "measure length")
  show "wf (measure length)" by simp
next
  fix r :: string
  assume "space_width_rev r \<noteq> 0"
  then have "r \<noteq> []" by auto
  with \<open>space_width_rev r \<noteq> 0\<close> show "(drop (space_width_rev r) r, r) \<in> measure length" by simp
qed

declare TrimLeftSpace.simps [simp del] TrimRightSpaceRev.simps [simp del]

definition TrimSpace :: "string \<Rightarrow> string" where
  "TrimSpace s = rev (TrimRightSpaceRev (rev (TrimLeftSpace s)))"

section \<open>The decoder of encoding/json, for a struct of string fields\<close>

text \<open>
  \<open>json.Unmarshal\<close> first checks that the whole input is one JSON value (its scanner),
  and only then decodes. The model reads the input into tokens, checks the token
  sequence with the scanner's states, and decodes the members of a top-level object
  into the fields of the target. A string literal is decoded while it is read, as
  \<open>unquote\<close> does: escapes are resolved and bytes that are not UTF-8 are replaced by
  U+FFFD.
\<close>

datatype token =
  TLBrace | TRBrace | TLBrack | TRBrack | TColon | TComma
  | TString string | TNumber | TTrue | TFalse | TNull

definition hexval :: "char \<Rightarrow> nat option" where
  "hexval c =
     (let n = (of_char c :: nat) in
      if 48 \<le> n \<and> n \<le> 57 then Some (n - 48)
      else if 97 \<le> n \<and> n \<le> 102 then Some (n - 87)
      else if 65 \<le> n \<and> n \<le> 70 then Some (n - 55)
      else None)"

text \<open>\<open>getu4 s\<close>: the code unit of an escape \<open>\uXXXX\<close> at the start of \<open>s\<close>.\<close>

fun getu4 :: "string \<Rightarrow> nat option" where
  "getu4 (b # u # h1 # h2 # h3 # h4 # s) =
     (if b = CHR 0x5C \<and> u = CHR ''u'' then
        (case (hexval h1, hexval h2, hexval h3, hexval h4) of
           (Some x1, Some x2, Some x3, Some x4) \<Rightarrow> Some (((x1 * 16 + x2) * 16 + x3) * 16 + x4)
         | _ \<Rightarrow> None)
      else None)"
| "getu4 _ = None"

definition RuneError :: string where
  "RuneError = [CHR 0xEF, CHR 0xBF, CHR 0xBD]"

text \<open>\<open>utf8.EncodeRune\<close>: the UTF-8 bytes of a code point.\<close>

definition EncodeRune :: "nat \<Rightarrow> string" where
  "EncodeRune r =
     (if r < 0x80 then [char_of r]
      else if r < 0x800 then [char_of (0xC0 + r div 64), char_of (0x80 + r mod 64)]
      else if r > 0x10FFFF \<or> (0xD800 \<le> r \<and> r < 0xE000) then RuneError
      else if r < 0x10000 then
        [char_of (0xE0 + r div 4096), char_of (0x80 + (r div 64) mod 64),
         char_of (0x80 + r mod 64)]
      else
        [char_of (0xF0 + r div 262144), char_of (0x80 + (r div 4096) mod 64),
         char_of (0x80 + (r div 64) mod 64), char_of (0x80 + r mod 64)])"

definition inrange :: "char \<Rightarrow> nat \<Rightarrow> nat \<Rightarrow> bool" where
  "inrange c lo hi = (lo \<le> of_char c \<and> (of_char c :: nat) \<le> hi)"

text \<open>
  The size \<open>utf8.DecodeRune\<close> returns at the start of a string: the length of the
  UTF-8 sequence there, and 1 for a byte that starts none (the rune is then U+FFFD).
\<close>

fun utf8_width :: "string \<Rightarrow> nat" where
  "utf8_width [] = 0"
| "utf8_width (p0 # p) =
     (let x = (of_char p0 :: nat) in
      if 0xC2 \<le> x \<and> x \<le> 0xDF then
        (case p of
           b1 # _ \<Rightarrow> if inrange b1 0x80 0xBF then 2 else 1
         | _ \<Rightarrow> 1)
      else if 0xE0 \<le> x \<and> x \<le> 0xEF then
        (case p of
           b1 # b2 # _ \<Rightarrow>
             if inrange b1 (if x = 0xE0 then 0xA0 else 0x80) (if x = 0xED then 0x9F else 0xBF)
                \<and> inrange b2 0x80 0xBF
             then 3 else 1
         | _ \<Rightarrow> 1)
      else if 0xF0 \<le> x \<and> x \<le> 0xF4 then
        (case p of
           b1 # b2 # b3 # _ \<Rightarrow>
             if inrange b1 (if x = 0xF0 then 0x90 else 0x80) (if x = 0xF4 then 0x8F else 0xBF)
                \<and> inrange b2 0x80 0xBF \<and> inrange b3 0x80 0xBF
             then 4 else 1
         | _ \<Rightarrow> 1)
      else 1)"

definition unescape :: "char \<Rightarrow> char option" where
  "unescape e =
     (if e = CHR 0x22 \<or> e = CHR 0x5C \<or> e = CHR ''/'' then Some e
      else if e = CHR ''b'' then Some (CHR 0x08)
      else if e = CHR ''f'' then Some (CHR 0x0C)
      else if e = CHR ''n'' then Some (CHR 0x0A)
      else if e = CHR ''r'' then Some (CHR 0x0D)
      else if e = CHR ''t'' then Some (CHR 0x09)
      else None)"

definition emit :: "string \<Rightarrow> (string \<times> string) option \<Rightarrow> (string \<times> string) option" where
  "emit bs r = (case r of None \<Rightarrow> None | Some (v, rest) \<Rightarrow> Some (bs @ v, rest))"

text \<open>
  \<open>lex_string s\<close> reads a string literal whose opening quote has been consumed: the
  decoded contents and the input after the closing quote, or \<open>None\<close> when the literal
  is not valid (a control character, a bad escape, no closing quote).
\<close>

function lex_string :: "string \<Rightarrow> (string \<times> string) option" where
  "lex_string [] = None"
| "lex_string (c # cs) =
     (if c = CHR 0x22 then Some ([], cs)
      else if c = CHR 0x5C then
        (case cs of
           [] \<Rightarrow> None
         | e # cs' \<Rightarrow>
             if e = CHR ''u'' then
               (case getu4 (c # cs) of
                  None \<Rightarrow> None
                | Some rr \<Rightarrow>
                    if 0xD800 \<le> rr \<and> rr < 0xE000 then
                      (case getu4 (drop 4 cs') of
                         None \<Rightarrow> emit RuneError (lex_string (drop 4 cs'))
                       | Some rr1 \<Rightarrow>
                           if rr < 0xDC00 \<and> 0xDC00 \<le> rr1 \<and> rr1 < 0xE000
                           then emit (EncodeRune ((rr - 0xD800) * 1024 + (rr1 - 0xDC00) + 0x10000))
                                  (lex_string (drop 10 cs'))
                           else emit RuneError (lex_string (drop 4 cs')))
                    else emit (EncodeRune rr) (lex_string (drop 4 cs')))
             else
               (case unescape e of
                  None \<Rightarrow> None
                | Some b \<Rightarrow> emit [b] (lex_string cs')))
      else if (of_char c :: nat) < 0x20 then None
      else if (of_char c :: nat) < 0x80 then emit [c] (lex_string cs)
      else if utf8_width (c # cs) = 1 then emit RuneError (lex_string cs)
      else emit (take (utf8_width (c # cs)) (c # cs))
             (lex_string (drop (utf8_width (c # cs) - 1) cs)))"
  by pat_completeness auto
termination
  by (relation "measure length") auto

definition isDigit :: "char \<Rightarrow> bool" where
  "isDigit c = inrange c 48 57"

definition lex_digits1 :: "string \<Rightarrow> string option" where
  "lex_digits1 s =
     (case s of
        [] \<Rightarrow> None
      | d # r \<Rightarrow> if isDigit d then Some (dropWhile isDigit r) else None)"

definition lex_int :: "string \<Rightarrow> string option" where
  "lex_int s =
     (case s of
        [] \<Rightarrow> None
      | d # r \<Rightarrow>
          if d = CHR ''0'' then Some r
          else if isDigit d then Some (dropWhile isDigit r)
          else None)"

definition lex_frac :: "string \<Rightarrow> string option" where
  "lex_frac s =
     (case s of
        [] \<Rightarrow> Some s
      | d # r \<Rightarrow> if d = CHR ''.'' then lex_digits1 r else Some s)"

definition lex_exp :: "string \<Rightarrow> string option" where
  "lex_exp s =
     (case s of
        [] \<Rightarrow> Some s
      | d # r \<Rightarrow>
          if d = CHR ''e'' \<or> d = CHR ''E'' then
            (case r of
               [] \<Rightarrow> None
             | sg # r' \<Rightarrow> if sg = CHR ''+'' \<or> sg = CHR ''-'' then lex_digits1 r' else lex_digits1 r)
          else Some s)"

text \<open>
  \<open>lex_number s\<close> reads a number literal at the start of \<open>s\<close> (the scanner's states
  \<open>stateNeg\<close>, \<open>state0\<close>, \<open>state1\<close>, \<open>stateDot\<close>, \<open>stateE\<close>) and returns the input
  after it.
\<close>

definition lex_number :: "string \<Rightarrow> string option" where
  "lex_number s =
     (case s of
        [] \<Rightarrow> None
      | c # r \<Rightarrow>
          (case lex_int (if c = CHR ''-'' then r else s) of
             None \<Rightarrow> None
           | Some s1 \<Rightarrow> (case lex_frac s1 of None \<Rightarrow> None | Some s2 \<Rightarrow> lex_exp s2)))"

definition isSpace :: "char \<Rightarrow> bool" where
  "isSpace c = (c = CHR 0x20 \<or> c = CHR 0x09 \<or> c = CHR 0x0D \<or> c = CHR 0x0A)"

definition push :: "token \<Rightarrow> token list option \<Rightarrow> token list option" where
  "push t r = (case r of None \<Rightarrow> None | Some ts \<Rightarrow> Some (t # ts))"

lemma emit_length:
  "emit bs r = Some (v, rest) \<Longrightarrow> \<exists>v'. r = Some (v', rest)"
  by (auto simp: emit_def split: option.splits)

lemma lex_string_step:
  assumes "lex_string (c # cs) = Some (v, rest)"
  shows "rest = cs \<or> (\<exists>k v'. lex_string (drop k cs) = Some (v', rest))"
proof -
  have A: "\<And>k v'. lex_string (drop k cs) = Some (v', rest) \<Longrightarrow> ?thesis"
    by blast
  note B = A[of 0, simplified] A[of 1] A[of 5] A[of 11] A[of "utf8_width (c # cs) - 1"]
  from assms show ?thesis
    apply (subst (asm) lex_string.simps)
    apply (simp split: if_splits list.splits option.splits
                del: utf8_width.simps getu4.simps lex_string.simps)
    using B
    apply (auto dest!: emit_length simp del: utf8_width.simps getu4.simps lex_string.simps)
    done
qed

lemma lex_string_length:
  "lex_string s = Some (v, rest) \<Longrightarrow> length rest < length s"
proof (induction "length s" arbitrary: s v rest rule: less_induct)
  case less
  from less.prems obtain c cs where s: "s = c # cs"
    by (cases s) auto
  have IH: "length rest < length s" if "lex_string (drop k cs) = Some (v', rest)" for k v'
  proof -
    have "length (drop k cs) < length s" using s by simp
    from less.hyps[OF this that] show ?thesis using s by simp
  qed
  from lex_string_step[of c cs v rest] less.prems s
  show ?case using IH by (auto simp: s)
qed

lemma dropWhile_length: "length (dropWhile P xs) \<le> length xs"
  by (induction xs) auto

lemma lex_digits1_length: "lex_digits1 s = Some r \<Longrightarrow> length r \<le> length s"
  by (auto simp: lex_digits1_def split: list.splits if_splits
           intro: le_SucI dropWhile_length)

lemma lex_int_length: "lex_int s = Some r \<Longrightarrow> length r < length s"
  by (auto simp: lex_int_def less_Suc_eq_le split: list.splits if_splits
           intro: dropWhile_length)

lemma lex_frac_length: "lex_frac s = Some r \<Longrightarrow> length r \<le> length s"
  by (auto simp: lex_frac_def split: list.splits if_splits
           dest!: lex_digits1_length)

lemma lex_exp_length: "lex_exp s = Some r \<Longrightarrow> length r \<le> length s"
  by (auto simp: lex_exp_def split: list.splits if_splits
           dest!: lex_digits1_length)

lemma lex_number_length: "lex_number s = Some r \<Longrightarrow> length r < length s"
  by (auto simp: lex_number_def split: list.splits if_splits option.splits
           dest!: lex_int_length lex_frac_length lex_exp_length)

text \<open>
  \<open>tokenize s\<close>: the tokens of \<open>s\<close>, with the white space between them dropped, or
  \<open>None\<close> when some byte starts no token.
\<close>

function tokenize :: "string \<Rightarrow> token list option" where
  "tokenize [] = Some []"
| "tokenize (c # cs) =
     (if isSpace c then tokenize cs
      else if c = CHR ''{'' then push TLBrace (tokenize cs)
      else if c = CHR ''}'' then push TRBrace (tokenize cs)
      else if c = CHR ''['' then push TLBrack (tokenize cs)
      else if c = CHR '']'' then push TRBrack (tokenize cs)
      else if c = CHR '':'' then push TColon (tokenize cs)
      else if c = CHR '','' then push TComma (tokenize cs)
      else if c = CHR 0x22 then
        (case lex_string cs of
           None \<Rightarrow> None
         | Some (v, r) \<Rightarrow> push (TString v) (tokenize r))
      else if c = CHR ''-'' \<or> isDigit c then
        (case lex_number (c # cs) of
           None \<Rightarrow> None
         | Some r \<Rightarrow> push TNumber (tokenize r))
      else if HasPrefix (c # cs) ''true'' then push TTrue (tokenize (drop 3 cs))
      else if HasPrefix (c # cs) ''false'' then push TFalse (tokenize (drop 4 cs))
      else if HasPrefix (c # cs) ''null'' then push TNull (tokenize (drop 3 cs))
      else None)"
  by pat_completeness auto
termination
proof (relation "measure length", goal_cases)
  case (9 c cs x2 x y)
  then have "lex_string cs = Some (x, y)" by simp
  from lex_string_length[OF this] show ?case by simp
next
  case (10 c cs x2)
  then have "lex_number (c # cs) = Some x2" by simp
  from lex_number_length[OF this] show ?case by simp
qed simp_all


declare utf8_width.simps [simp del] getu4.simps [simp del] lex_string.simps [simp del]
  tokenize.simps [simp del]

text \<open>
  The scanner's check of a token sequence. \<open>pstate\<close> is what the scanner expects
  next (its step functions \<open>stateBeginValue\<close>, \<open>stateBeginValueOrEmpty\<close>,
  \<open>stateBeginStringOrEmpty\<close>, \<open>stateBeginString\<close>, \<open>stateEndValue\<close>, and the colon
  after an object key); \<open>ctx\<close> is an entry of its stack \<open>parseState\<close>. Nesting deeper
  than \<open>maxNestingDepth\<close> is an error.
\<close>

datatype pstate =
  BeginValue | BeginValueOrEmpty | BeginStringOrEmpty | BeginString | ExpectColon | EndValue

datatype ctx = InObject | InArray

definition maxNestingDepth :: nat where
  "maxNestingDepth = 10000"

definition isLiteral :: "token \<Rightarrow> bool" where
  "isLiteral t = (case t of TString _ \<Rightarrow> True | TNumber \<Rightarrow> True | TTrue \<Rightarrow> True
                  | TFalse \<Rightarrow> True | TNull \<Rightarrow> True | _ \<Rightarrow> False)"

fun scanTokens :: "pstate \<Rightarrow> ctx list \<Rightarrow> token list \<Rightarrow> bool" where
  "scanTokens st stk [] = (st = EndValue \<and> stk = [])"
| "scanTokens st stk (t # ts) =
     (case st of
        BeginValue \<Rightarrow>
          if t = TLBrace then length stk < maxNestingDepth
                              \<and> scanTokens BeginStringOrEmpty (InObject # stk) ts
          else if t = TLBrack then length stk < maxNestingDepth
                              \<and> scanTokens BeginValueOrEmpty (InArray # stk) ts
          else isLiteral t \<and> scanTokens EndValue stk ts
      | BeginValueOrEmpty \<Rightarrow>
          if t = TRBrack then scanTokens EndValue (tl stk) ts
          else if t = TLBrace then length stk < maxNestingDepth
                              \<and> scanTokens BeginStringOrEmpty (InObject # stk) ts
          else if t = TLBrack then length stk < maxNestingDepth
                              \<and> scanTokens BeginValueOrEmpty (InArray # stk) ts
          else isLiteral t \<and> scanTokens EndValue stk ts
      | BeginStringOrEmpty \<Rightarrow>
          if t = TRBrace then scanTokens EndValue (tl stk) ts
          else (case t of TString _ \<Rightarrow> scanTokens ExpectColon stk ts | _ \<Rightarrow> False)
      | BeginString \<Rightarrow>
          (case t of TString _ \<Rightarrow> scanTokens ExpectColon stk ts | _ \<Rightarrow> False)
      | ExpectColon \<Rightarrow> t = TColon \<and> scanTokens BeginValue stk ts
      | EndValue \<Rightarrow>
          (case stk of
             [] \<Rightarrow> False
           | InObject # stk' \<Rightarrow>
               if t = TComma then scanTokens BeginString stk ts
               else t = TRBrace \<and> scanTokens EndValue stk' ts
           | InArray # stk' \<Rightarrow>
               if t = TComma then scanTokens BeginValue stk ts
               else t = TRBrack \<and> scanTokens EndValue stk' ts))"

text \<open>\<open>checkValid\<close>: the input is exactly one JSON value, white space around it.\<close>

definition checkValid :: "string \<Rightarrow> bool" where
  "checkValid data =
     (case tokenize data of None \<Rightarrow> False | Some ts \<Rightarrow> scanTokens BeginValue [] ts)"

text \<open>
  Decoding. \<open>jval\<close> is what the decoder finds as the value of a member of the top-level
  object: a string, \<open>null\<close>, or a value of another kind (named as
  \<open>UnmarshalTypeError.Value\<close> names it). \<open>members d ts\<close> lists the members of the
  top-level object from the tokens after its opening brace; \<open>d\<close> is the nesting depth
  inside a member's value, whose tokens are skipped.
\<close>

datatype jval = JString string | JNull | JOther string

definition jval_of :: "token \<Rightarrow> jval" where
  "jval_of t =
     (case t of
        TString v \<Rightarrow> JString v
      | TNull \<Rightarrow> JNull
      | TNumber \<Rightarrow> JOther ''number''
      | TTrue \<Rightarrow> JOther ''bool''
      | TFalse \<Rightarrow> JOther ''bool''
      | TLBrace \<Rightarrow> JOther ''object''
      | _ \<Rightarrow> JOther ''array'')"

definition opens :: "token \<Rightarrow> bool" where
  "opens t = (t = TLBrace \<or> t = TLBrack)"

definition closes :: "token \<Rightarrow> bool" where
  "closes t = (t = TRBrace \<or> t = TRBrack)"

fun members :: "nat \<Rightarrow> token list \<Rightarrow> (string \<times> jval) list" where
  "members d [] = []"
| "members d (t # ts) =
     (if d = 0 then
        (case t of
           TString k \<Rightarrow>
             (case ts of
                TColon # v # ts' \<Rightarrow> (k, jval_of v) # members (if opens v then 1 else 0) ts'
              | _ \<Rightarrow> [])
         | TComma \<Rightarrow> members 0 ts
         | _ \<Rightarrow> [])
      else if opens t then members (d + 1) ts
      else if closes t then members (d - 1) ts
      else members d ts)"

datatype json_error = SyntaxError | UnmarshalTypeError string

text \<open>
  The name of a struct field matches a key when their folded names are equal: ASCII
  letters match without regard to case, and the Kelvin sign U+212A and the long s U+017F
  match \<open>k\<close> and \<open>s\<close>. The field names of this program are ASCII. \<open>upper c\<close> is the
  code of the upper-case form of an ASCII character.
\<close>

definition upper :: "char \<Rightarrow> nat" where
  "upper c = (if inrange c 97 122 then of_char c - 32 else of_char c)"

fun nameEqualFold :: "string \<Rightarrow> string \<Rightarrow> bool" where
  "nameEqualFold [] [] = True"
| "nameEqualFold [] (n # ns) = False"
| "nameEqualFold (c # cs) [] = False"
| "nameEqualFold (c # cs) (n # ns) =
     (if (of_char c :: nat) < 0x80 then upper c = upper n \<and> nameEqualFold cs ns
      else if HasPrefix (c # cs) [CHR 0xE2, CHR 0x84, CHR 0xAA]
        then upper n = of_char (CHR ''K'') \<and> nameEqualFold (drop 2 cs) ns
      else if HasPrefix (c # cs) [CHR 0xC5, CHR 0xBF]
        then upper n = of_char (CHR ''S'') \<and> nameEqualFold (drop 1 cs) ns
      else False)"

text \<open>
  \<open>decodeMembers\<close> stores the members into the target, in order, through the setter
  \<open>setf\<close> of the struct (\<open>None\<close> for a key that names no field, which is skipped). A
  string is stored; \<open>null\<close> leaves the field as it is; a value of another kind leaves
  the field as it is and is recorded as an \<open>UnmarshalTypeError\<close>, the earliest of which
  is returned, and decoding goes on.
\<close>

fun decodeMembers ::
  "(string \<Rightarrow> string \<Rightarrow> 'r \<Rightarrow> 'r option) \<Rightarrow> (string \<times> jval) list
     \<Rightarrow> json_error option \<times> 'r \<Rightarrow> json_error option \<times> 'r" where
  "decodeMembers setf [] acc = acc"
| "decodeMembers setf ((k, v) # ms) (err, r) =
     (case setf k [] r of
        None \<Rightarrow> decodeMembers setf ms (err, r)
      | Some _ \<Rightarrow>
          (case v of
             JString x \<Rightarrow>
               decodeMembers setf ms (err, (case setf k x r of None \<Rightarrow> r | Some r' \<Rightarrow> r'))
           | JNull \<Rightarrow> decodeMembers setf ms (err, r)
           | JOther kind \<Rightarrow>
               decodeMembers setf ms
                 ((case err of None \<Rightarrow> Some (UnmarshalTypeError kind) | Some e \<Rightarrow> Some e), r)))"

text \<open>
  \<open>Unmarshal setf data v\<close> is \<open>json.Unmarshal([]byte(data), &v)\<close> for a struct \<open>v\<close> of
  string fields: the error returned (if any) and the target afterwards. Invalid input
  leaves the target untouched; so does a top-level value that is not an object.
\<close>

definition Unmarshal ::
  "(string \<Rightarrow> string \<Rightarrow> 'r \<Rightarrow> 'r option) \<Rightarrow> string \<Rightarrow> 'r \<Rightarrow> json_error option \<times> 'r" where
  "Unmarshal setf data v =
     (if \<not> checkValid data then (Some SyntaxError, v)
      else
        (case tokenize data of
           Some (TLBrace # ts) \<Rightarrow> decodeMembers setf (members 0 ts) (None, v)
         | Some (TNull # ts) \<Rightarrow> (None, v)
         | Some (t # ts) \<Rightarrow>
             (case jval_of t of
                JString _ \<Rightarrow> (Some (UnmarshalTypeError ''string''), v)
              | JOther kind \<Rightarrow> (Some (UnmarshalTypeError kind), v)
              | JNull \<Rightarrow> (None, v))
         | _ \<Rightarrow> (Some SyntaxError, v)))"

section \<open>The data model of main.go\<close>

record ContainerInfo =
  Command :: string
  CreatedAt :: string
  ID :: string
  Image :: string
  Labels :: string
  LocalVolumes :: string
  Mounts :: string
  Names :: string
  Networks :: string
  Ports :: string
  RunningFor :: string
  Size :: string
  State :: string
  Status :: string

text \<open>
  The fields of \<open>ImageInfo\<close> carry the prefix \<open>Img\<close>, since three of them have the
  names of fields of \<open>ContainerInfo\<close>.
\<close>

record ImageInfo =
  ImgContainers :: string
  ImgCreatedAt :: string
  ImgCreatedSince :: string
  ImgDigest :: string
  ImgID :: string
  ImgRepository :: string
  ImgSharedSize :: string
  ImgSize :: string
  ImgTag :: string
  ImgUniqueSize :: string
  ImgVirtualSize :: string

text \<open>
  The counters are Go \<open>int\<close>s. They count fragments of the command's output, so they
  stay far below 2^63 and are modelled as unbounded integers.
\<close>

record DockerEnvironment =
  Environment :: string
  StoppedContainers :: int
  RunningContainers :: int
  DockerVersion :: string
  TotalLocalDockerImages :: int
  ContainersInfo :: "ContainerInfo list"
  ImagesInfo :: "ImageInfo list"

record DockerMonitor =
  DockerEnvironments :: "DockerEnvironment list"

text \<open>The zero values of the two record structs (\<open>var jsonContainer ContainerInfo\<close>).\<close>

definition zeroContainerInfo :: ContainerInfo where
  "zeroContainerInfo =
     \<lparr>Command = [], CreatedAt = [], ID = [], Image = [], Labels = [], LocalVolumes = [],
      Mounts = [], Names = [], Networks = [], Ports = [], RunningFor = [], Size = [],
      State = [], Status = []\<rparr>"

definition zeroImageInfo :: ImageInfo where
  "zeroImageInfo =
     \<lparr>ImgContainers = [], ImgCreatedAt = [], ImgCreatedSince = [], ImgDigest = [], ImgID = [],
      ImgRepository = [], ImgSharedSize = [], ImgSize = [], ImgTag = [], ImgUniqueSize = [],
      ImgVirtualSize = []\<rparr>"

text \<open>
  The field a key decodes into, by the \<open>json\<close> tags of the structs (lines 28-57). The
  tag of \<open>CreatedSince\<close> is \<open>createSince\<close>, as in the source.
\<close>

definition setContainerInfo :: "string \<Rightarrow> string \<Rightarrow> ContainerInfo \<Rightarrow> ContainerInfo option" where
  "setContainerInfo k x r =
     (if nameEqualFold k ''command'' then Some (r\<lparr>Command := x\<rparr>)
      else if nameEqualFold k ''createdAt'' then Some (r\<lparr>CreatedAt := x\<rparr>)
      else if nameEqualFold k ''id'' then Some (r\<lparr>ID := x\<rparr>)
      else if nameEqualFold k ''image'' then Some (r\<lparr>Image := x\<rparr>)
      else if nameEqualFold k ''labels'' then Some (r\<lparr>Labels := x\<rparr>)
      else if nameEqualFold k ''localVolumes'' then Some (r\<lparr>LocalVolumes := x\<rparr>)
      else if nameEqualFold k ''mounts'' then Some (r\<lparr>Mounts := x\<rparr>)
      else if nameEqualFold k ''names'' then Some (r\<lparr>Names := x\<rparr>)
      else if nameEqualFold k ''networks'' then Some (r\<lparr>Networks := x\<rparr>)
      else if nameEqualFold k ''ports'' then Some (r\<lparr>Ports := x\<rparr>)
      else if nameEqualFold k ''runningFor'' then Some (r\<lparr>RunningFor := x\<rparr>)
      else if nameEqualFold k ''size'' then Some (r\<lparr>Size := x\<rparr>)
      else if nameEqualFold k ''state'' then Some (r\<lparr>State := x\<rparr>)
      else if nameEqualFold k ''status'' then Some (r\<lparr>Status := x\<rparr>)
      else None)"

definition setImageInfo :: "string \<Rightarrow> string \<Rightarrow> ImageInfo \<Rightarrow> ImageInfo option" where
  "setImageInfo k x r =
     (if nameEqualFold k ''containers'' then Some (r\<lparr>ImgContainers := x\<rparr>)
      else if nameEqualFold k ''createdAt'' then Some (r\<lparr>ImgCreatedAt := x\<rparr>)
      else if nameEqualFold k ''createSince'' then Some (r\<lparr>ImgCreatedSince := x\<rparr>)
      else if nameEqualFold k ''digest'' then Some (r\<lparr>ImgDigest := x\<rparr>)
      else if nameEqualFold k ''id'' then Some (r\<lparr>ImgID := x\<rparr>)
      else if nameEqualFold k ''repository'' then Some (r\<lparr>ImgRepository := x\<rparr>)
      else if nameEqualFold k ''sharedSize'' then Some (r\<lparr>ImgSharedSize := x\<rparr>)
      else if nameEqualFold k ''size'' then Some (r\<lparr>ImgSize := x\<rparr>)
      else if nameEqualFold k ''tag'' then Some (r\<lparr>ImgTag := x\<rparr>)
      else if nameEqualFold k ''uniqueSize'' then Some (r\<lparr>ImgUniqueSize := x\<rparr>)
      else if nameEqualFold k ''virtualSize'' then Some (r\<lparr>ImgVirtualSize := x\<rparr>)
      else None)"

section \<open>The registry\<close>

text \<open>\<open>NewDockerMonitor\<close> (lines 59-78): the loop appends one entry for each name.\<close>

definition newDockerEnvironment :: "string \<Rightarrow> DockerEnvironment" where
  "newDockerEnvironment env =
     \<lparr>Environment = env, StoppedContainers = 0, RunningContainers = 0, DockerVersion = [],
      TotalLocalDockerImages = 0, ContainersInfo = [], ImagesInfo = []\<rparr>"

fun appendEnvironments :: "string list \<Rightarrow> DockerEnvironment list \<Rightarrow> DockerEnvironment list" where
  "appendEnvironments [] dockerEnvironments = dockerEnvironments"
| "appendEnvironments (env # envs) dockerEnvironments =
     appendEnvironments envs (dockerEnvironments @ [newDockerEnvironment env])"

definition NewDockerMonitor :: "string list \<Rightarrow> DockerMonitor" where
  "NewDockerMonitor envs = \<lparr>DockerEnvironments = appendEnvironments envs []\<rparr>"

text \<open>
  The loop that ends each \<open>execute\<close> (lines 95-99, 148-154, 193-198): every entry whose
  \<open>Environment\<close> equals \<open>env\<close> gets the assignments \<open>f\<close>; the others are left alone.
  The assignments never change \<open>Environment\<close>.
\<close>

fun updateMatching ::
  "(DockerEnvironment \<Rightarrow> DockerEnvironment) \<Rightarrow> string \<Rightarrow> DockerEnvironment list
     \<Rightarrow> DockerEnvironment list" where
  "updateMatching f env [] = []"
| "updateMatching f env (dockerEnv # rest) =
     (if Environment dockerEnv = env then f dockerEnv else dockerEnv)
       # updateMatching f env rest"

section \<open>The three actions\<close>

text \<open>
  The external command is the environment's: its outcome is an argument of the model,
  \<open>Inl\<close> the error of \<open>cmd.Output()\<close> / \<open>cmd.CombinedOutput()\<close> (the command could not
  be started, or exited with a non-zero status), \<open>Inr\<close> its output. Printing to the
  console is not modelled.
\<close>

datatype exec_error = SpawnError | ExitError int

type_synonym cmd_result = "exec_error + string"

definition CheckDockerVersion_execute ::
  "cmd_result \<Rightarrow> string \<Rightarrow> DockerMonitor \<Rightarrow> exec_error option \<times> DockerMonitor" where
  "CheckDockerVersion_execute res env d =
     (case res of
        Inl err \<Rightarrow> (Some err, d)
      | Inr out \<Rightarrow>
          (None, d\<lparr>DockerEnvironments :=
                     updateMatching (\<lambda>e. e\<lparr>DockerVersion := out\<rparr>) env (DockerEnvironments d)\<rparr>))"

text \<open>The sentinel and the two markers (lines 123-124, 172-173).\<close>

definition sentinel :: string where
  \<open>sentinel = ''<===>''\<close>

definition quote :: string where
  \<open>quote = ''"''\<close>

definition containerMarker :: string where
  \<open>containerMarker = ''"{"Command":''\<close>

definition imageMarker :: string where
  \<open>imageMarker = ''"{"Containers":''\<close>

text \<open>
  \<open>splitRecords marker out\<close> is the array the loops run over: \<open>out\<close> with the sentinel put
  before every marker, split at the sentinel followed by a quote.
\<close>

definition splitRecords :: "string \<Rightarrow> string \<Rightarrow> string list" where
  "splitRecords marker out = Split (ReplaceAll out marker (sentinel @ marker)) (sentinel @ quote)"

text \<open>What the loop body makes of one fragment (lines 131-134, 179-183).\<close>

definition parseContainer :: "string \<Rightarrow> ContainerInfo" where
  "parseContainer cont =
     snd (Unmarshal setContainerInfo (TrimSuffix (TrimSpace cont) quote) zeroContainerInfo)"

definition parseImage :: "string \<Rightarrow> ImageInfo" where
  "parseImage img =
     snd (Unmarshal setImageInfo (TrimSuffix (TrimSpace img) quote) zeroImageInfo)"

text \<open>
  The loop of lines 129-142 over \<open>containersArray\<close>, with its index and the three
  variables it updates.
\<close>

fun containersLoop ::
  "nat \<Rightarrow> string list \<Rightarrow> int \<times> int \<times> ContainerInfo list \<Rightarrow> int \<times> int \<times> ContainerInfo list" where
  "containersLoop index [] acc = acc"
| "containersLoop index (cont # rest) (stopped, running, containerOutput) =
     (if index \<noteq> 0 then
        (let jsonContainer = parseContainer cont in
         if State jsonContainer = ''exited''
         then containersLoop (index + 1) rest
                (stopped + 1, running, containerOutput @ [jsonContainer])
         else containersLoop (index + 1) rest
                (stopped, running + 1, containerOutput @ [jsonContainer]))
      else containersLoop (index + 1) rest (stopped, running, containerOutput))"

definition CheckContainersStatus_execute ::
  "cmd_result \<Rightarrow> string \<Rightarrow> DockerMonitor \<Rightarrow> exec_error option \<times> DockerMonitor" where
  "CheckContainersStatus_execute res env d =
     (case res of
        Inl err \<Rightarrow> (Some err, d)
      | Inr out \<Rightarrow>
          (case containersLoop 0 (splitRecords containerMarker out) (0, 0, []) of
             (stopped, running, containerOutput) \<Rightarrow>
               (None, d\<lparr>DockerEnvironments :=
                  updateMatching
                    (\<lambda>e. e\<lparr>StoppedContainers := stopped, RunningContainers := running,
                            ContainersInfo := containerOutput\<rparr>)
                    env (DockerEnvironments d)\<rparr>)))"

text \<open>The loop of lines 177-191 over \<open>imagesArray\<close>.\<close>

fun imagesLoop :: "nat \<Rightarrow> string list \<Rightarrow> int \<times> ImageInfo list \<Rightarrow> int \<times> ImageInfo list" where
  "imagesLoop index [] acc = acc"
| "imagesLoop index (img # rest) (totalImages, imageOutput) =
     (if index \<noteq> 0 then
        imagesLoop (index + 1) rest (totalImages + 1, imageOutput @ [parseImage img])
      else imagesLoop (index + 1) rest (totalImages, imageOutput))"

definition CheckLocalImages_execute ::
  "cmd_result \<Rightarrow> string \<Rightarrow> DockerMonitor \<Rightarrow> exec_error option \<times> DockerMonitor" where
  "CheckLocalImages_execute res env d =
     (case res of
        Inl err \<Rightarrow> (Some err, d)
      | Inr out \<Rightarrow>
          (case imagesLoop 0 (splitRecords imageMarker out) (0, []) of
             (totalImages, imageOutput) \<Rightarrow>
               (None, d\<lparr>DockerEnvironments :=
                  updateMatching
                    (\<lambda>e. e\<lparr>TotalLocalDockerImages := totalImages, ImagesInfo := imageOutput\<rparr>)
                    env (DockerEnvironments d)\<rparr>)))"

section \<open>Actions, workflows and main\<close>

text \<open>
  The three implementations of the interface \<open>Action\<close>; each holds the pointer to the one
  monitor. A run is a state: the monitor and the number of commands started so far. The
  world \<open>w\<close> says what the \<open>n\<close>-th command started returns, for each command, so a
  theorem for all \<open>w\<close> holds whatever docker does.
\<close>

datatype Action = CheckDockerVersion | CheckContainersStatus | CheckLocalImages

type_synonym world = "nat \<Rightarrow> Action \<Rightarrow> cmd_result"

record run_state =
  monitor :: DockerMonitor
  started :: nat

definition execute :: "world \<Rightarrow> Action \<Rightarrow> string \<Rightarrow> run_state \<Rightarrow> exec_error option \<times> run_state" where
  "execute w a env s =
     (case (case a of
              CheckDockerVersion \<Rightarrow> CheckDockerVersion_execute (w (started s) a) env (monitor s)
            | CheckContainersStatus \<Rightarrow>
                CheckContainersStatus_execute (w (started s) a) env (monitor s)
            | CheckLocalImages \<Rightarrow> CheckLocalImages_execute (w (started s) a) env (monitor s)) of
        (err, d) \<Rightarrow> (err, \<lparr>monitor = d, started = started s + 1\<rparr>))"

record Workflow =
  Name :: string
  Actions :: "Action list"

text \<open>\<open>executeActions\<close> (lines 227-237): the loop returns at the first error.\<close>

fun executeLoop ::
  "world \<Rightarrow> string \<Rightarrow> Action list \<Rightarrow> run_state \<Rightarrow> exec_error option \<times> run_state" where
  "executeLoop w name [] s = (None, s)"
| "executeLoop w name (a # rest) s =
     (case execute w a name s of
        (Some err, s') \<Rightarrow> (Some err, s')
      | (None, s') \<Rightarrow> executeLoop w name rest s')"

definition executeActions :: "world \<Rightarrow> Workflow \<Rightarrow> run_state \<Rightarrow> exec_error option \<times> run_state" where
  "executeActions w wfl s = executeLoop w (Name wfl) (Actions wfl) s"

text \<open>
  The loop of \<open>main\<close> over the workflows (lines 273-279): an error is printed and the
  loop goes on. The model returns what each workflow returned.
\<close>

fun runWorkflows ::
  "world \<Rightarrow> Workflow list \<Rightarrow> run_state \<Rightarrow> exec_error option list \<times> run_state" where
  "runWorkflows w [] s = ([], s)"
| "runWorkflows w (wfl # rest) s =
     (case executeActions w wfl s of
        (err, s') \<Rightarrow> (case runWorkflows w rest s' of (errs, s'') \<Rightarrow> (err # errs, s'')))"

text \<open>
  Line 284: \<open>d.DockerEnvironments[0].ContainersInfo[0].Image\<close>. An index out of range
  is a run-time panic.
\<close>

datatype panic = IndexOutOfRange

definition firstContainerImage :: "DockerMonitor \<Rightarrow> panic + string" where
  "firstContainerImage d =
     (case DockerEnvironments d of
        [] \<Rightarrow> Inl IndexOutOfRange
      | e # _ \<Rightarrow>
          (case ContainersInfo e of
             [] \<Rightarrow> Inl IndexOutOfRange
           | c # _ \<Rightarrow> Inr (Image c)))"

definition allActions :: "Action list" where
  "allActions = [CheckDockerVersion, CheckContainersStatus, CheckLocalImages]"

definition mainWorkflows :: "Workflow list" where
  "mainWorkflows =
     [\<lparr>Name = ''Dev Environment'', Actions = allActions\<rparr>,
      \<lparr>Name = ''UAT Environment'', Actions = allActions\<rparr>]"

definition mainProgram :: "world \<Rightarrow> panic + string" where
  "mainProgram w =
     (case runWorkflows w mainWorkflows
             \<lparr>monitor = NewDockerMonitor [''Dev Environment'', ''UAT Environment''], started = 0\<rparr> of
        (errs, s) \<Rightarrow> firstContainerImage (monitor s))"

text \<open>
  The assignments an action makes to a matching entry, given the output of its command:
  the bodies of the three final loops, written without the loop variables. It is used to
  state what \<open>execute\<close> does in one equation.
\<close>

definition actionUpdate :: "Action \<Rightarrow> string \<Rightarrow> DockerEnvironment \<Rightarrow> DockerEnvironment" where
  "actionUpdate a out e =
     (case a of
        CheckDockerVersion \<Rightarrow> e\<lparr>DockerVersion := out\<rparr>
      | CheckContainersStatus \<Rightarrow>
          e\<lparr>StoppedContainers :=
               int (length (filter (\<lambda>c. State c = ''exited'')
                      (map parseContainer (tl (splitRecords containerMarker out))))),
            RunningContainers :=
               int (length (filter (\<lambda>c. State c \<noteq> ''exited'')
                      (map parseContainer (tl (splitRecords containerMarker out))))),
            ContainersInfo := map parseContainer (tl (splitRecords containerMarker out))\<rparr>
      | CheckLocalImages \<Rightarrow>
          e\<lparr>TotalLocalDockerImages := int (length (tl (splitRecords imageMarker out))),
            ImagesInfo := map parseImage (tl (splitRecords imageMarker out))\<rparr>)"

section \<open>The input the splitter is written for\<close>






subsection \<open>Records as docker prints them\<close>



















text \<open>
  The invariant of an entry: its counters agree with the records it holds.
\<close>

definition countsConsistent :: "DockerEnvironment \<Rightarrow> bool" where
  "countsConsistent e =
     (StoppedContainers e + RunningContainers e = int (length (ContainersInfo e))
      \<and> TotalLocalDockerImages e = int (length (ImagesInfo e)))"

text \<open>
  Example runs: the registry of two environments, an output of
  \<open>docker container ls\<close> with one exited and one running container, a world that
  returns it to every command, and a world in which the container listing fails.
\<close>

definition exampleBlob :: string where
  \<open>exampleBlob =
     ''"{"Command":"nginx","State":"exited"}"'' @ [CHR 0x0A]
     @ ''"{"Command":"redis","State":"running"}"'' @ [CHR 0x0A]\<close>

definition exampleState :: run_state where
  "exampleState = \<lparr>monitor = NewDockerMonitor [''Dev'', ''UAT''], started = 0\<rparr>"

definition blobWorld :: world where
  "blobWorld = (\<lambda>n a. Inr exampleBlob)"

definition failingWorld :: world where
  "failingWorld =
     (\<lambda>n a. case a of
               CheckContainersStatus \<Rightarrow> Inl (ExitError 1)
             | _ \<Rightarrow> Inr ''Docker version 20.10.8'')"



section \<open>Properties\<close>

subsection \<open>The loops in closed form\<close>

lemma updateMatching_map:
  "updateMatching f env es = map (\<lambda>e. if Environment e = env then f e else e) es"
  by (induction es) auto

lemma containersLoop_Suc:
  "containersLoop (Suc i) xs (stopped, running, out) =
     (stopped + int (length (filter (\<lambda>c. State c = ''exited'') (map parseContainer xs))),
      running + int (length (filter (\<lambda>c. State c \<noteq> ''exited'') (map parseContainer xs))),
      out @ map parseContainer xs)"
  by (induction xs arbitrary: i stopped running out) (simp_all add: Let_def)

lemma containersLoop_0:
  "containersLoop 0 xs acc = containersLoop (Suc 0) (tl xs) acc"
  by (cases xs; cases acc) auto


lemma imagesLoop_Suc:
  "imagesLoop (Suc i) xs (n, out) =
     (n + int (length xs), out @ map parseImage xs)"
  by (induction xs arbitrary: i n out) simp_all

lemma imagesLoop_0:
  "imagesLoop 0 xs acc = imagesLoop (Suc 0) (tl xs) acc"
  by (cases xs; cases acc) auto

lemma version_execute_closed:
  "CheckDockerVersion_execute (Inr out) env d =
     (None,
      d\<lparr>DockerEnvironments :=
          map (\<lambda>e. if Environment e = env then e\<lparr>DockerVersion := out\<rparr> else e)
            (DockerEnvironments d)\<rparr>)"
  by (simp add: CheckDockerVersion_execute_def updateMatching_map)

lemma containers_execute_closed:
  "CheckContainersStatus_execute (Inr out) env d =
     (None,
      d\<lparr>DockerEnvironments :=
          map (\<lambda>e. if Environment e = env
                    then e\<lparr>StoppedContainers :=
                             int (length (filter (\<lambda>c. State c = ''exited'')
                                    (map parseContainer (tl (splitRecords containerMarker out))))),
                           RunningContainers :=
                             int (length (filter (\<lambda>c. State c \<noteq> ''exited'')
                                    (map parseContainer (tl (splitRecords containerMarker out))))),
                           ContainersInfo :=
                             map parseContainer (tl (splitRecords containerMarker out))\<rparr>
                    else e)
            (DockerEnvironments d)\<rparr>)"
  by (simp add: CheckContainersStatus_execute_def containersLoop_0 containersLoop_Suc
        updateMatching_map)

lemma images_execute_closed:
  "CheckLocalImages_execute (Inr out) env d =
     (None,
      d\<lparr>DockerEnvironments :=
          map (\<lambda>e. if Environment e = env
                    then e\<lparr>TotalLocalDockerImages := int (length (tl (splitRecords imageMarker out))),
                           ImagesInfo := map parseImage (tl (splitRecords imageMarker out))\<rparr>
                    else e)
            (DockerEnvironments d)\<rparr>)"
  by (simp add: CheckLocalImages_execute_def imagesLoop_0 imagesLoop_Suc updateMatching_map)

lemma execute_closed:
  "execute w a env s =
     (case w (started s) a of
        Inl err \<Rightarrow> (Some err, \<lparr>monitor = monitor s, started = started s + 1\<rparr>)
      | Inr out \<Rightarrow>
          (None,
           \<lparr>monitor = (monitor s)\<lparr>DockerEnvironments :=
                map (\<lambda>e. if Environment e = env then actionUpdate a out e else e)
                  (DockerEnvironments (monitor s))\<rparr>,
            started = started s + 1\<rparr>))"
proof (cases "w (started s) a")
  case (Inl err)
  then show ?thesis
    by (cases a)
       (simp_all add: execute_def CheckDockerVersion_execute_def
          CheckContainersStatus_execute_def CheckLocalImages_execute_def)
next
  case (Inr out)
  then show ?thesis
    by (cases a)
       (simp_all add: execute_def version_execute_closed containers_execute_closed
          images_execute_closed actionUpdate_def)
qed

lemma actionUpdate_Environment [simp]: "Environment (actionUpdate a out e) = Environment e"
  by (cases a) (simp_all add: actionUpdate_def)


subsection \<open>The splitter on well-formed record texts\<close>

lemma HasPrefix_append_same: "HasPrefix (p @ s) p"
  by (simp add: HasPrefix_def)


















subsection \<open>Decoding a record docker printed\<close>








lemma push_Some: "push t (Some ts) = Some (t # ts)" and push_None: "push t None = None"
  by (simp_all add: push_def)













subsection \<open>The marker does not occur inside a record\<close>












subsection \<open>The record splitter\<close>










subsection \<open>The actions and the registry\<close>

text \<open>
  C3. The container-status action counts a record as stopped exactly when its
  \<open>State\<close> is \<open>exited\<close> and as running otherwise (so also for the empty state of
  a record that did not parse), and overwrites the stopped count, the running count and
  the record sequence of every entry named \<open>env\<close>.
\<close>

theorem containers_status_classification:
  "CheckContainersStatus_execute (Inr out) env d =
     (None,
      d\<lparr>DockerEnvironments :=
          map (\<lambda>e. if Environment e = env
                    then e\<lparr>StoppedContainers :=
                             int (length (filter (\<lambda>c. State c = ''exited'')
                                    (map parseContainer (tl (splitRecords containerMarker out))))),
                           RunningContainers :=
                             int (length (filter (\<lambda>c. State c \<noteq> ''exited'')
                                    (map parseContainer (tl (splitRecords containerMarker out))))),
                           ContainersInfo :=
                             map parseContainer (tl (splitRecords containerMarker out))\<rparr>
                    else e)
            (DockerEnvironments d)\<rparr>)"
  by (simp add: CheckContainersStatus_execute_def containersLoop_0 containersLoop_Suc
        updateMatching_map)

text \<open>
  C5. Each of the three actions applies its update to every entry of the registry whose
  name equals the target name, duplicates included, and to no other entry.
\<close>

theorem probes_update_every_match:
  "CheckDockerVersion_execute (Inr out) env d =
     (None,
      d\<lparr>DockerEnvironments :=
          map (\<lambda>e. if Environment e = env then e\<lparr>DockerVersion := out\<rparr> else e)
            (DockerEnvironments d)\<rparr>)
   \<and> CheckContainersStatus_execute (Inr out) env d =
     (None,
      d\<lparr>DockerEnvironments :=
          map (\<lambda>e. if Environment e = env
                    then e\<lparr>StoppedContainers :=
                             int (length (filter (\<lambda>c. State c = ''exited'')
                                    (map parseContainer (tl (splitRecords containerMarker out))))),
                           RunningContainers :=
                             int (length (filter (\<lambda>c. State c \<noteq> ''exited'')
                                    (map parseContainer (tl (splitRecords containerMarker out))))),
                           ContainersInfo :=
                             map parseContainer (tl (splitRecords containerMarker out))\<rparr>
                    else e)
            (DockerEnvironments d)\<rparr>)
   \<and> CheckLocalImages_execute (Inr out) env d =
     (None,
      d\<lparr>DockerEnvironments :=
          map (\<lambda>e. if Environment e = env
                    then e\<lparr>TotalLocalDockerImages := int (length (tl (splitRecords imageMarker out))),
                           ImagesInfo := map parseImage (tl (splitRecords imageMarker out))\<rparr>
                    else e)
            (DockerEnvironments d)\<rparr>)"
  using version_execute_closed[of out env d] containers_execute_closed[of out env d]
    images_execute_closed[of out env d]
  by (intro conjI)

text \<open>
  C6. Running any action against environment \<open>A\<close> leaves every entry with another name
  as it was, in its place: the registry keeps its length, and the entry at index \<open>i\<close> is
  unchanged when its name is not \<open>A\<close>.
\<close>

theorem other_environments_unchanged:
  assumes "i < length (DockerEnvironments (monitor s))"
    and "Environment (DockerEnvironments (monitor s) ! i) \<noteq> A"
  shows "length (DockerEnvironments (monitor (snd (execute w a A s))))
           = length (DockerEnvironments (monitor s))
         \<and> DockerEnvironments (monitor (snd (execute w a A s))) ! i
           = DockerEnvironments (monitor s) ! i"
  using assms by (simp add: execute_closed split: sum.splits)

lemma exampleBlob_records:
  "map parseContainer (tl (splitRecords containerMarker exampleBlob)) =
     [zeroContainerInfo\<lparr>Command := ''nginx'', State := ''exited''\<rparr>,
      zeroContainerInfo\<lparr>Command := ''redis'', State := ''running''\<rparr>]"
  by code_simp

theorem other_environments_unchanged_witness:
  "DockerEnvironments
     (monitor (snd (execute blobWorld CheckContainersStatus ''Dev'' exampleState))) ! 1
   = newDockerEnvironment ''UAT''
   \<and> DockerEnvironments
     (monitor (snd (execute blobWorld CheckContainersStatus ''Dev'' exampleState))) ! 0
   = (newDockerEnvironment ''Dev'')
       \<lparr>StoppedContainers := 1, RunningContainers := 1,
        ContainersInfo := [zeroContainerInfo\<lparr>Command := ''nginx'', State := ''exited''\<rparr>,
                           zeroContainerInfo\<lparr>Command := ''redis'', State := ''running''\<rparr>]\<rparr>"
proof -
  have envs: "DockerEnvironments (monitor exampleState)
                = [newDockerEnvironment ''Dev'', newDockerEnvironment ''UAT'']"
    by (simp add: exampleState_def NewDockerMonitor_def)
  have h1: "1 < length (DockerEnvironments (monitor exampleState))"
    by (simp add: envs)
  have h2: "Environment (DockerEnvironments (monitor exampleState) ! 1) \<noteq> ''Dev''"
    by (simp add: envs newDockerEnvironment_def)
  have dev: "DockerEnvironments
     (monitor (snd (execute blobWorld CheckContainersStatus ''Dev'' exampleState))) ! 0
   = (newDockerEnvironment ''Dev'')
       \<lparr>StoppedContainers := 1, RunningContainers := 1,
        ContainersInfo := [zeroContainerInfo\<lparr>Command := ''nginx'', State := ''exited''\<rparr>,
                           zeroContainerInfo\<lparr>Command := ''redis'', State := ''running''\<rparr>]\<rparr>"
    by (simp add: execute_closed blobWorld_def envs actionUpdate_def exampleBlob_records
          newDockerEnvironment_def zeroContainerInfo_def)
  from other_environments_unchanged[OF h1 h2, of blobWorld CheckContainersStatus] envs dev
  show ?thesis by simp
qed

text \<open>
  C7. Each action returns an error exactly when its command fails, and then returns it
  with the monitor untouched; when the command succeeds the action returns no error,
  whatever the output is (fragments that do not parse included).
\<close>

theorem probe_error_iff_command_fails:
  "CheckDockerVersion_execute (Inl err) env d = (Some err, d)
   \<and> CheckContainersStatus_execute (Inl err) env d = (Some err, d)
   \<and> CheckLocalImages_execute (Inl err) env d = (Some err, d)
   \<and> fst (CheckDockerVersion_execute (Inr out) env d) = None
   \<and> fst (CheckContainersStatus_execute (Inr out) env d) = None
   \<and> fst (CheckLocalImages_execute (Inr out) env d) = None"
  by (simp add: version_execute_closed containers_execute_closed images_execute_closed)
     (simp add: CheckDockerVersion_execute_def CheckContainersStatus_execute_def
        CheckLocalImages_execute_def)

subsection \<open>Workflows\<close>

lemma executeLoop_append:
  "executeLoop w name (pre @ rest) s =
     (case executeLoop w name pre s of
        (Some err, s') \<Rightarrow> (Some err, s')
      | (None, s') \<Rightarrow> executeLoop w name rest s')"
  by (induction pre arbitrary: s) (auto split: prod.splits option.splits)

lemma execute_started: "started (snd (execute w a env s)) = started s + 1"
  by (simp add: execute_closed split: sum.splits)

lemma executeLoop_started_None:
  "executeLoop w name acts s = (None, s') \<Longrightarrow> started s' = started s + length acts"
proof (induction acts arbitrary: s)
  case Nil
  then show ?case by simp
next
  case (Cons a acts)
  obtain err s1 where ex: "execute w a name s = (err, s1)" by (cases "execute w a name s")
  with Cons.prems have "err = None" and "executeLoop w name acts s1 = (None, s')"
    by (auto split: option.splits)
  from Cons.IH[OF this(2)] execute_started[of w a name s] ex show ?case by simp
qed

lemma execute_error_monitor:
  "execute w a env s = (Some err, s') \<Longrightarrow> monitor s' = monitor s"
  by (auto simp: execute_closed split: sum.splits)

lemma runWorkflows_Cons:
  "runWorkflows w (wfl # rest) s =
     (fst (executeActions w wfl s) # fst (runWorkflows w rest (snd (executeActions w wfl s))),
      snd (runWorkflows w rest (snd (executeActions w wfl s))))"
  by (simp split: prod.splits)

text \<open>
  C4. A workflow runs its actions in order and returns the first error at once: when the
  actions \<open>pre\<close> succeed and the next action \<open>a\<close> fails, the workflow returns that
  error whatever actions \<open>post\<close> follow; the monitor is the one the actions \<open>pre\<close> left
  (their updates stay, the failing action adds none); exactly \<open>length pre + 1\<close> commands
  were started, so no action of \<open>post\<close> ran; and the loop of \<open>main\<close> goes on with the
  remaining workflows from that state.
\<close>

theorem workflow_stops_at_first_error:
  assumes "executeLoop w name pre s = (None, s1)"
    and "execute w a name s1 = (Some err, s2)"
  shows "executeActions w \<lparr>Name = name, Actions = pre @ a # post\<rparr> s = (Some err, s2)
         \<and> monitor s2 = monitor s1
         \<and> started s2 = started s + length pre + 1
         \<and> runWorkflows w (\<lparr>Name = name, Actions = pre @ a # post\<rparr> # rest) s
             = (Some err # fst (runWorkflows w rest s2), snd (runWorkflows w rest s2))"
proof -
  have run: "executeActions w \<lparr>Name = name, Actions = pre @ a # post\<rparr> s = (Some err, s2)"
    using assms by (simp add: executeActions_def executeLoop_append)
  have mon: "monitor s2 = monitor s1"
    using assms(2) by (rule execute_error_monitor)
  have "started s2 = started s1 + 1"
    using execute_started[of w a name s1] assms(2) by simp
  with executeLoop_started_None[OF assms(1)]
  have cnt: "started s2 = started s + length pre + 1" by simp
  have "runWorkflows w (\<lparr>Name = name, Actions = pre @ a # post\<rparr> # rest) s
          = (Some err # fst (runWorkflows w rest s2), snd (runWorkflows w rest s2))"
    by (simp only: runWorkflows_Cons run fst_conv snd_conv)
  with run mon cnt show ?thesis by simp
qed

theorem workflow_stops_at_first_error_witness:
  "executeActions failingWorld
     \<lparr>Name = ''Dev'', Actions = [CheckDockerVersion, CheckContainersStatus, CheckLocalImages]\<rparr>
     exampleState
   = (Some (ExitError 1),
      \<lparr>monitor = \<lparr>DockerEnvironments =
           [(newDockerEnvironment ''Dev'')\<lparr>DockerVersion := ''Docker version 20.10.8''\<rparr>,
            newDockerEnvironment ''UAT'']\<rparr>,
       started = 2\<rparr>)"
proof -
  let ?s1 = "\<lparr>monitor = \<lparr>DockerEnvironments =
           [(newDockerEnvironment ''Dev'')\<lparr>DockerVersion := ''Docker version 20.10.8''\<rparr>,
            newDockerEnvironment ''UAT'']\<rparr>, started = 1\<rparr>"
  let ?s2 = "\<lparr>monitor = \<lparr>DockerEnvironments =
           [(newDockerEnvironment ''Dev'')\<lparr>DockerVersion := ''Docker version 20.10.8''\<rparr>,
            newDockerEnvironment ''UAT'']\<rparr>, started = 2\<rparr>"
  have h1: "executeLoop failingWorld ''Dev'' [CheckDockerVersion] exampleState = (None, ?s1)"
    by (simp add: execute_closed failingWorld_def exampleState_def NewDockerMonitor_def
          newDockerEnvironment_def actionUpdate_def)
  have h2: "execute failingWorld CheckContainersStatus ''Dev'' ?s1 = (Some (ExitError 1), ?s2)"
    by (simp add: execute_closed failingWorld_def)
  from workflow_stops_at_first_error[OF h1 h2, of "[CheckLocalImages]" "[]"]
  show ?thesis by simp
qed

subsection \<open>Construction and invariants of the registry\<close>

lemma execute_names:
  "map Environment (DockerEnvironments (monitor (snd (execute w a env s))))
     = map Environment (DockerEnvironments (monitor s))"
  by (auto simp: execute_closed comp_def split: sum.splits)

lemma executeLoop_names:
  "map Environment (DockerEnvironments (monitor (snd (executeLoop w name acts s))))
     = map Environment (DockerEnvironments (monitor s))"
proof (induction acts arbitrary: s)
  case Nil
  show ?case by simp
next
  case (Cons a acts)
  obtain err s' where ex: "execute w a name s = (err, s')" by (cases "execute w a name s")
  have n: "map Environment (DockerEnvironments (monitor s'))
             = map Environment (DockerEnvironments (monitor s))"
    using execute_names[of w a name s] ex by simp
  show ?case
  proof (cases err)
    case None
    with ex Cons.IH[of s'] n show ?thesis by simp
  next
    case (Some e)
    with ex n show ?thesis by simp
  qed
qed

lemma runWorkflows_names:
  "map Environment (DockerEnvironments (monitor (snd (runWorkflows w wfs s))))
     = map Environment (DockerEnvironments (monitor s))"
proof (induction wfs arbitrary: s)
  case Nil
  show ?case by simp
next
  case (Cons wfl wfs)
  have "map Environment (DockerEnvironments (monitor (snd (executeActions w wfl s))))
          = map Environment (DockerEnvironments (monitor s))"
    by (simp add: executeActions_def executeLoop_names)
  with Cons.IH[of "snd (executeActions w wfl s)"] show ?case
    by (simp only: runWorkflows_Cons snd_conv)
qed

lemma appendEnvironments_map:
  "appendEnvironments envs acc = acc @ map newDockerEnvironment envs"
  by (induction envs arbitrary: acc) simp_all

text \<open>
  C8. \<open>NewDockerMonitor\<close> makes one entry for each name, in the order of the names, with
  an empty version, the three counters 0 and no records; and no run of workflows deletes,
  adds or renames an entry.
\<close>

theorem registry_construction:
  "DockerEnvironments (NewDockerMonitor envs) =
     map (\<lambda>env. \<lparr>Environment = env, StoppedContainers = 0, RunningContainers = 0,
                  DockerVersion = [], TotalLocalDockerImages = 0, ContainersInfo = [],
                  ImagesInfo = []\<rparr>) envs
   \<and> map Environment (DockerEnvironments (monitor (snd (execute w a env s))))
       = map Environment (DockerEnvironments (monitor s))
   \<and> map Environment (DockerEnvironments (monitor (snd (runWorkflows w wfs s))))
       = map Environment (DockerEnvironments (monitor s))"
proof -
  have "newDockerEnvironment = (\<lambda>env. \<lparr>Environment = env, StoppedContainers = 0,
          RunningContainers = 0, DockerVersion = [], TotalLocalDockerImages = 0,
          ContainersInfo = [], ImagesInfo = []\<rparr>)"
    by (rule ext) (simp add: newDockerEnvironment_def)
  then show ?thesis
    using execute_names[of w a env s] runWorkflows_names[of w wfs s]
    by (simp add: NewDockerMonitor_def appendEnvironments_map)
qed

lemma filter_split_int:
  "int (length (filter P xs)) + int (length (filter (\<lambda>x. \<not> P x) xs)) = int (length xs)"
  by (induction xs) auto

lemma actionUpdate_consistent:
  assumes "countsConsistent e"
  shows "countsConsistent (actionUpdate a out e)"
proof (cases a)
  case CheckContainersStatus
  define rs where "rs = map parseContainer (tl (splitRecords containerMarker out))"
  have h: "int (length (filter (\<lambda>c. State c = ''exited'') rs))
             + int (length (filter (\<lambda>c. State c \<noteq> ''exited'') rs)) = int (length rs)"
    using filter_split_int[of "\<lambda>c. State c = ''exited''" rs] by simp
  have "actionUpdate a out e =
          e\<lparr>StoppedContainers := int (length (filter (\<lambda>c. State c = ''exited'') rs)),
            RunningContainers := int (length (filter (\<lambda>c. State c \<noteq> ''exited'') rs)),
            ContainersInfo := rs\<rparr>"
    unfolding rs_def by (simp add: actionUpdate_def CheckContainersStatus)
  with h assms show ?thesis
    by (simp add: countsConsistent_def)
next
  case CheckDockerVersion
  with assms show ?thesis by (simp add: actionUpdate_def countsConsistent_def)
next
  case CheckLocalImages
  with assms show ?thesis by (simp add: actionUpdate_def countsConsistent_def)
qed

lemma execute_consistent:
  "list_all countsConsistent (DockerEnvironments (monitor s)) \<Longrightarrow>
   list_all countsConsistent (DockerEnvironments (monitor (snd (execute w a env s))))"
  by (auto simp: execute_closed list_all_iff actionUpdate_consistent split: sum.splits)

lemma executeLoop_consistent:
  "list_all countsConsistent (DockerEnvironments (monitor s)) \<Longrightarrow>
   list_all countsConsistent (DockerEnvironments (monitor (snd (executeLoop w name acts s))))"
proof (induction acts arbitrary: s)
  case Nil
  then show ?case by simp
next
  case (Cons a acts)
  obtain err s' where ex: "execute w a name s = (err, s')" by (cases "execute w a name s")
  have c: "list_all countsConsistent (DockerEnvironments (monitor s'))"
    using execute_consistent[OF Cons.prems, of w a name] ex by simp
  show ?case
  proof (cases err)
    case None
    with ex Cons.IH[OF c] show ?thesis by simp
  next
    case (Some e)
    with ex c show ?thesis by simp
  qed
qed

lemma runWorkflows_consistent:
  "list_all countsConsistent (DockerEnvironments (monitor s)) \<Longrightarrow>
   list_all countsConsistent (DockerEnvironments (monitor (snd (runWorkflows w wfs s))))"
proof (induction wfs arbitrary: s)
  case Nil
  then show ?case by simp
next
  case (Cons wfl wfs)
  have "list_all countsConsistent (DockerEnvironments (monitor (snd (executeActions w wfl s))))"
    using executeLoop_consistent[OF Cons.prems] by (simp add: executeActions_def)
  from Cons.IH[OF this] show ?case
    by (simp only: runWorkflows_Cons snd_conv)
qed

text \<open>
  C9. In every state a run reaches from a freshly built registry, each entry has
  \<open>StoppedContainers + RunningContainers\<close> equal to the number of its container records
  and \<open>TotalLocalDockerImages\<close> equal to the number of its image records.
\<close>

theorem counts_match_records:
  "list_all countsConsistent
     (DockerEnvironments (monitor (snd (runWorkflows w wfs
        \<lparr>monitor = NewDockerMonitor envs, started = n\<rparr>))))"
proof -
  have "list_all countsConsistent (DockerEnvironments (NewDockerMonitor envs))"
    by (simp add: NewDockerMonitor_def appendEnvironments_map list_all_iff
          newDockerEnvironment_def countsConsistent_def)
  then show ?thesis
    using runWorkflows_consistent[of "\<lparr>monitor = NewDockerMonitor envs, started = n\<rparr>" w wfs]
    by simp
qed

subsection \<open>The final print\<close>

text \<open>
  C10. The last line of \<open>main\<close> reads the image of the first container record of the first
  environment with no check. The read panics exactly when the registry is empty or the
  first entry has no container record, and \<open>main\<close> reaches that state: when docker
  lists no container, and when every command fails.
\<close>

theorem final_print_needs_a_container:
  "(firstContainerImage d = Inl IndexOutOfRange)
     = (case DockerEnvironments d of [] \<Rightarrow> True | e # es \<Rightarrow> ContainersInfo e = [])
   \<and> firstContainerImage \<lparr>DockerEnvironments = e\<lparr>ContainersInfo := c # cs\<rparr> # es\<rparr>
       = Inr (Image c)
   \<and> mainProgram (\<lambda>n a. Inr []) = Inl IndexOutOfRange
   \<and> mainProgram (\<lambda>n a. Inl SpawnError) = Inl IndexOutOfRange"
proof -
  have a: "(firstContainerImage d = Inl IndexOutOfRange)
     = (case DockerEnvironments d of [] \<Rightarrow> True | e # es \<Rightarrow> ContainersInfo e = [])"
    by (simp add: firstContainerImage_def split: list.splits)
  have b: "firstContainerImage \<lparr>DockerEnvironments = e\<lparr>ContainersInfo := c # cs\<rparr> # es\<rparr>
       = Inr (Image c)"
    by (simp add: firstContainerImage_def)
  have c: "mainProgram (\<lambda>n a. Inr []) = Inl IndexOutOfRange"
    by code_simp
  have d: "mainProgram (\<lambda>n a. Inl SpawnError) = Inl IndexOutOfRange"
    by code_simp
  from a b c d show ?thesis by simp
qed

end
